theory Spec2Isabelle
  imports Main "HOL-Library.Multiset"
begin

section \<open>Team partitioning (\<open>create_teams\<close> of app.py)\<close>

text \<open>
  \<open>PLAYERS_PER_TEAM = 6\<close> is the module-level configuration constant.
\<close>

definition PLAYERS_PER_TEAM :: nat where
  "PLAYERS_PER_TEAM = 6"

text \<open>
  Python's slice \<open>xs[i:j]\<close> for \<open>0 \<le> i\<close>, \<open>0 \<le> j\<close>: the elements at the positions
  \<open>i, ..., min j (len xs) - 1\<close>; a slice never raises, it is cut at the end of the list.
\<close>

definition slice :: "'a list \<Rightarrow> nat \<Rightarrow> nat \<Rightarrow> 'a list" where
  "slice xs i j = take (j - i) (drop i xs)"

text \<open>
  \<open>random.shuffle(x)\<close> of the standard library shuffles in place:
  \<^verbatim>\<open>
    for i in reversed(range(1, len(x))):
        j = randbelow(i + 1)
        x[i], x[j] = x[j], x[i]
  \<close>
  The random source is an explicit argument: \<open>rnd i\<close> is the raw draw used at index
  \<open>i\<close>, and \<open>randbelow(i + 1)\<close> is \<open>rnd i mod (i + 1)\<close>. Every sequence of draws is some
  \<open>rnd\<close>, so a property proved for all \<open>rnd\<close> holds for every outcome of the shuffle.
  \<open>shuffle_from rnd k x\<close> runs the iterations \<open>i = k, k - 1, ..., 1\<close>.
\<close>

fun shuffle_from :: "(nat \<Rightarrow> nat) \<Rightarrow> nat \<Rightarrow> 'a list \<Rightarrow> 'a list" where
  "shuffle_from rnd 0 x = x"
| "shuffle_from rnd (Suc k) x =
     (let i = Suc k;
          j = rnd i mod (i + 1)
      in shuffle_from rnd k (x[i := x ! j, j := x ! i]))"

definition shuffle :: "(nat \<Rightarrow> nat) \<Rightarrow> 'a list \<Rightarrow> 'a list" where
  "shuffle rnd x = shuffle_from rnd (length x - 1) x"

text \<open>
  The loop of \<open>create_teams\<close>:
  \<^verbatim>\<open>
    teams = []
    for i in range(0, num_players, PLAYERS_PER_TEAM):
        team = shuffled[i:i+PLAYERS_PER_TEAM]
        teams.append(team)
  \<close>
  with the loop variable \<open>i\<close> and the accumulator \<open>teams\<close> as arguments.
\<close>

function create_teams_loop :: "nat \<Rightarrow> nat \<Rightarrow> 'a list \<Rightarrow> 'a list list \<Rightarrow> 'a list list" where
  "create_teams_loop i num_players shuffled teams =
     (if i < num_players
      then create_teams_loop (i + PLAYERS_PER_TEAM) num_players shuffled
             (teams @ [slice shuffled i (i + PLAYERS_PER_TEAM)])
      else teams)"
  by pat_completeness auto
termination
  by (relation "measure (\<lambda>(i, num_players, shuffled, teams). num_players - i)")
     (auto simp: PLAYERS_PER_TEAM_def)

declare create_teams_loop.simps [simp del]

definition create_teams :: "(nat \<Rightarrow> nat) \<Rightarrow> 'a list \<Rightarrow> 'a list list" where
  "create_teams rnd players =
     (let num_players = length players
      in if num_players = 0 then []
         else (let shuffled = shuffle rnd players
               in create_teams_loop 0 num_players shuffled []))"

section \<open>Text of commands and replies\<close>

text \<open>
  Text is modelled as the list of the bytes of its UTF-8 encoding: the ASCII part of a
  message is written as a literal, a symbol outside ASCII as its bytes. Nothing in the
  program measures the length of a text, so the choice does not affect any result.
\<close>

definition nl :: string where
  "nl = [CHR 0x0A]"

definition soccer_ball :: string where
  "soccer_ball = [CHR 0xE2, CHR 0x9A, CHR 0xBD]"

definition bullet :: string where
  "bullet = [CHR 0xE2, CHR 0x80, CHR 0xA2]"

definition crown :: string where
  "crown = [CHR 0xF0, CHR 0x9F, CHR 0x91, CHR 0x91]"

definition check_mark :: string where
  "check_mark = [CHR 0xE2, CHR 0x9C, CHR 0x85]"

definition cross_mark :: string where
  "cross_mark = [CHR 0xE2, CHR 0x9D, CHR 0x8C]"

definition game_pad :: string where
  "game_pad = [CHR 0xF0, CHR 0x9F, CHR 0x8E, CHR 0xAE]"

definition game_die :: string where
  "game_die = [CHR 0xF0, CHR 0x9F, CHR 0x8E, CHR 0xB2]"

definition bar_chart :: string where
  "bar_chart = [CHR 0xF0, CHR 0x9F, CHR 0x93, CHR 0x8A]"

definition green_circle :: string where
  "green_circle = [CHR 0xF0, CHR 0x9F, CHR 0x9F, CHR 0xA2]"

definition red_circle :: string where
  "red_circle = [CHR 0xF0, CHR 0x9F, CHR 0x94, CHR 0xB4]"

definition arrows :: string where
  "arrows = [CHR 0xF0, CHR 0x9F, CHR 0x94, CHR 0x84]"

definition info_sign :: string where
  "info_sign = [CHR 0xE2, CHR 0x84, CHR 0xB9, CHR 0xEF, CHR 0xB8, CHR 0x8F]"

definition question_mark :: string where
  "question_mark = [CHR 0xE2, CHR 0x9D, CHR 0x93]"

text \<open>
  \<open>str.strip()\<close> removes the leading and the trailing whitespace characters, those for
  which \<open>str.isspace\<close> holds: the ASCII characters tab, line feed, vertical tab, form
  feed, carriage return, the separators \<open>0x1C .. 0x1F\<close> and the space, and outside ASCII
  U+0085, U+00A0, U+1680, U+2000 .. U+200A, U+2028, U+2029, U+202F, U+205F and U+3000.
  \<open>whitespace\<close> lists their UTF-8 encodings. Each encoding starts with a byte that is
  never a continuation byte, so one of them at the start or at the end of an encoded text is
  a whitespace character of the text.
\<close>

definition whitespace :: "string list" where
  "whitespace =
     [[CHR 0x09], [CHR 0x0A], [CHR 0x0B], [CHR 0x0C], [CHR 0x0D],
      [CHR 0x1C], [CHR 0x1D], [CHR 0x1E], [CHR 0x1F], [CHR 0x20],
      [CHR 0xC2, CHR 0x85], [CHR 0xC2, CHR 0xA0],
      [CHR 0xE1, CHR 0x9A, CHR 0x80],
      [CHR 0xE2, CHR 0x80, CHR 0x80], [CHR 0xE2, CHR 0x80, CHR 0x81],
      [CHR 0xE2, CHR 0x80, CHR 0x82], [CHR 0xE2, CHR 0x80, CHR 0x83],
      [CHR 0xE2, CHR 0x80, CHR 0x84], [CHR 0xE2, CHR 0x80, CHR 0x85],
      [CHR 0xE2, CHR 0x80, CHR 0x86], [CHR 0xE2, CHR 0x80, CHR 0x87],
      [CHR 0xE2, CHR 0x80, CHR 0x88], [CHR 0xE2, CHR 0x80, CHR 0x89],
      [CHR 0xE2, CHR 0x80, CHR 0x8A],
      [CHR 0xE2, CHR 0x80, CHR 0xA8], [CHR 0xE2, CHR 0x80, CHR 0xA9],
      [CHR 0xE2, CHR 0x80, CHR 0xAF],
      [CHR 0xE2, CHR 0x81, CHR 0x9F],
      [CHR 0xE3, CHR 0x80, CHR 0x80]]"

text \<open>\<open>s.startswith(p)\<close>.\<close>

fun startswith :: "string \<Rightarrow> string \<Rightarrow> bool" where
  "startswith s [] = True"
| "startswith [] (p # ps) = False"
| "startswith (c # s) (p # ps) = (c = p \<and> startswith s ps)"

text \<open>
  \<open>space_prefix ws s\<close> is the number of bytes of the first of the sequences \<open>ws\<close> that
  \<open>s\<close> starts with, and \<open>0\<close> when it starts with none. \<open>strip_left ws s\<close> takes such
  sequences off the start of \<open>s\<close> as long as there is one.
\<close>

definition space_prefix :: "string list \<Rightarrow> string \<Rightarrow> nat" where
  "space_prefix ws s =
     (case find (\<lambda>w. startswith s w) ws of Some w \<Rightarrow> length w | None \<Rightarrow> 0)"

function strip_left :: "string list \<Rightarrow> string \<Rightarrow> string" where
  "strip_left ws s =
     (if space_prefix ws s = 0 then s
      else strip_left ws (drop (space_prefix ws s) s))"
  by pat_completeness auto
termination
proof (relation "measure (\<lambda>(ws, s). length s)")
  show "wf (measure (\<lambda>(ws, s). length s))" by simp
next
  fix ws :: "string list" and s :: string
  assume n: "space_prefix ws s \<noteq> 0"
  have "s \<noteq> []"
  proof
    assume empty: "s = []"
    show False
    proof (cases "find (\<lambda>w. startswith s w) ws")
      case None
      with n show False by (simp add: space_prefix_def)
    next
      case (Some w)
      then have "startswith s w" by (auto simp: find_Some_iff)
      with empty have "w = []" by (cases w) simp_all
      with Some n show False by (simp add: space_prefix_def)
    qed
  qed
  with n show "((ws, drop (space_prefix ws s) s), (ws, s)) \<in> measure (\<lambda>(ws, s). length s)"
    by simp
qed

declare strip_left.simps [simp del]

definition lstrip :: "string \<Rightarrow> string" where
  "lstrip s = strip_left whitespace s"

definition rstrip :: "string \<Rightarrow> string" where
  "rstrip s = rev (strip_left (map rev whitespace) (rev s))"

definition strip :: "string \<Rightarrow> string" where
  "strip s = rstrip (lstrip s)"

text \<open>
  \<open>str.lower()\<close> is modelled on ASCII: the capital letters \<open>A .. Z\<close> become small, every
  other byte is kept. Python maps a character outside ASCII to text outside ASCII again,
  with two exceptions: the Kelvin sign U+212A becomes \<open>k\<close>, and U+0130 becomes \<open>i\<close>
  followed by the combining dot U+0307. No command of the handler contains \<open>k\<close> or a
  character outside ASCII, so the lower-cased text is a command, or starts with
  \<open>/addadmin\<close> or with \<open>/\<close>, in the model exactly when it does in Python; the handler
  uses the text for nothing else.
\<close>

definition lower_char :: "char \<Rightarrow> char" where
  "lower_char ch =
     (case map_of (zip ''ABCDEFGHIJKLMNOPQRSTUVWXYZ'' ''abcdefghijklmnopqrstuvwxyz'') ch of
        Some c \<Rightarrow> c
      | None \<Rightarrow> ch)"

definition lower :: "string \<Rightarrow> string" where
  "lower s = map lower_char s"

text \<open>The decimal digits of a natural number, as an f-string prints \<open>len(...)\<close>.\<close>

fun str_nat :: "nat \<Rightarrow> string" where
  "str_nat n =
     (if n < 10 then [''0123456789'' ! n]
      else str_nat (n div 10) @ [''0123456789'' ! (n mod 10)])"

declare str_nat.simps [simp del]

section \<open>The store\<close>

text \<open>
  The JSON document of \<open>players.json\<close>, as \<open>init_data\<close> lays it out: the list of admin
  phone numbers, the dictionary from a phone number to the player's record \<open>{"name": ...}\<close>,
  and the session with its flag and the list of the phones who said "in".
\<close>

record player_info =
  name :: string

record session_state =
  active :: bool
  participants :: "string list"

record store =
  admins :: "string list"
  players :: "string \<rightharpoonup> player_info"
  session :: session_state

definition init_data :: store where
  "init_data =
     \<lparr>admins = [],
      players = Map.empty,
      session = \<lparr>active = False, participants = []\<rparr>\<rparr>"

text \<open>
  The file is \<open>None\<close> when it does not exist or cannot be read, and \<open>load_data\<close> then
  falls back to \<open>init_data()\<close>. \<open>save_data\<close> replaces the content of the file; a write
  that fails is not modelled.
\<close>

definition load_data :: "store option \<Rightarrow> store" where
  "load_data file = (case file of Some data \<Rightarrow> data | None \<Rightarrow> init_data)"

definition save_data :: "store \<Rightarrow> store option \<Rightarrow> store option" where
  "save_data data file = Some data"

definition is_admin :: "string \<Rightarrow> store \<Rightarrow> bool" where
  "is_admin phone data = (phone \<in> set (admins data))"

text \<open>
  The two ways the program reads a dictionary: \<open>d.get(k, default)\<close> never fails,
  the subscript \<open>d[k]\<close> raises \<open>KeyError\<close> on a missing key.
\<close>

datatype py_error = KeyError

definition dict_get :: "('k \<rightharpoonup> 'v) \<Rightarrow> 'k \<Rightarrow> 'v \<Rightarrow> 'v" where
  "dict_get d k dflt = (case d k of Some v \<Rightarrow> v | None \<Rightarrow> dflt)"

definition getitem :: "('k \<rightharpoonup> 'v) \<Rightarrow> 'k \<Rightarrow> py_error + 'v" where
  "getitem d k = (case d k of Some v \<Rightarrow> Inr v | None \<Rightarrow> Inl KeyError)"

section \<open>Rendering of the teams (\<open>format_teams\<close>)\<close>

definition team_emojis :: "string list" where
  "team_emojis =
     [[CHR 0xF0, CHR 0x9F, CHR 0x94, CHR 0xB4],
      [CHR 0xF0, CHR 0x9F, CHR 0x94, CHR 0xB5],
      [CHR 0xF0, CHR 0x9F, CHR 0x9F, CHR 0xA2],
      [CHR 0xF0, CHR 0x9F, CHR 0x9F, CHR 0xA1],
      [CHR 0xF0, CHR 0x9F, CHR 0x9F, CHR 0xA3],
      [CHR 0xF0, CHR 0x9F, CHR 0x9F, CHR 0xA0],
      [CHR 0xE2, CHR 0x9A, CHR 0xAB],
      [CHR 0xE2, CHR 0x9A, CHR 0xAA]]"

definition team_names :: "string list" where
  "team_names =
     [''Red'', ''Blue'', ''Green'', ''Yellow'', ''Purple'', ''Orange'', ''Black'', ''White'']"

text \<open>The line of one player: two spaces, the bullet, a space, \<open>p['name']\<close> and a line feed.\<close>

definition player_line :: "player_info \<Rightarrow> string" where
  "player_line p = ''  '' @ bullet @ '' '' @ name p @ nl"

text \<open>
  The loop \<open>for i, team in enumerate(teams)\<close> with the index \<open>i\<close> and the text built so
  far as arguments. The source's local variable \<open>name\<close> is called \<open>label\<close> here, since
  \<open>name\<close> is the field of the player's record. The subscripts of the two lists of eight
  labels are at \<open>i mod 8\<close>, always in range.
\<close>

fun format_teams_loop :: "nat \<Rightarrow> player_info list list \<Rightarrow> string \<Rightarrow> string" where
  "format_teams_loop i [] text = text"
| "format_teams_loop i (team # teams) text =
     (if team = [] then format_teams_loop (Suc i) teams text
      else (let emoji = team_emojis ! (i mod length team_emojis);
                label = team_names ! (i mod length team_names);
                text = text @ emoji @ '' *'' @ label @ '' Team* ('' @
                       str_nat (length team) @ '' players)'' @ nl;
                text = foldl (\<lambda>text p. text @ player_line p) text team;
                text = text @ nl
            in format_teams_loop (Suc i) teams text))"

definition format_teams :: "player_info list list \<Rightarrow> string" where
  "format_teams teams =
     (let text = soccer_ball @ '' *THIS WEEK'S TEAMS* '' @ soccer_ball @ nl;
          text = text @ replicate 30 (CHR ''='') @ nl @ nl
      in format_teams_loop 0 teams text)"

section \<open>The webhook handler (\<open>whatsapp_bot\<close>)\<close>

text \<open>
  The request is the dictionary \<open>request.values\<close>. The handler gets the random source of
  the shuffle, the request and the file, and returns the file as it is afterwards and
  either the error raised or the body of the reply. The body is \<open>None\<close> when
  \<open>reply.body\<close> was never called: the response then carries a message element without
  text. The dictionary \<open>data\<close> is changed in memory as the source changes it, and the
  file changes only where the source calls \<open>save_data\<close>; in every other branch the file
  is returned as it was. \<open>list.remove\<close> takes out the first occurrence, as \<open>remove1\<close>
  does.
\<close>

type_synonym request = "string \<rightharpoonup> string"

definition whatsapp_bot ::
  "(nat \<Rightarrow> nat) \<Rightarrow> request \<Rightarrow> store option \<Rightarrow> store option \<times> (py_error + string option)" where
  "whatsapp_bot rnd values file =
     (let msg_body = strip (dict_get values ''Body'' []);
          sender = dict_get values ''From'' [];
          profile_name = dict_get values ''ProfileName'' ''Player'';
          data = load_data file;
          msg = lower msg_body
      in
      if startswith msg ''/addadmin'' then
        (if \<not> is_admin sender data \<and> length (admins data) = 0 then
           (let data = data\<lparr>admins := admins data @ [sender]\<rparr>
            in (save_data data file, Inr (Some (crown @ '' You are now an admin!''))))
         else if is_admin sender data then
           (file, Inr (Some (check_mark @ '' You're already an admin!'' @ nl @ nl @
                             ''Admin commands:'' @ nl @
                             ''/start - Start selection'' @ nl @
                             ''/end - Create random teams'' @ nl @
                             ''/status - View current status'' @ nl @
                             ''/reset - Reset session'')))
         else
           (file, Inr (Some (cross_mark @ '' Only existing admins can add new admins''))))
      else if msg = ''/start'' then
        (if \<not> is_admin sender data then
           (file, Inr (Some (cross_mark @ '' Only admins can start selection'')))
         else
           (let data = data\<lparr>session := (session data)\<lparr>active := True\<rparr>\<rparr>;
                data = data\<lparr>session := (session data)\<lparr>participants := []\<rparr>\<rparr>
            in (save_data data file,
                Inr (Some (game_pad @ '' *TEAM SELECTION STARTED!*'' @ nl @ nl @
                           ''Reply with:'' @ nl @
                           bullet @ '' *in* - Join this week'' @ nl @
                           bullet @ '' *out* - Skip this week'' @ nl @ nl @
                           ''Admin will announce teams later!'')))))
      else if msg = ''/end'' then
        (if \<not> is_admin sender data then
           (file, Inr (Some (cross_mark @ '' Only admins can end selection'')))
         else if \<not> active (session data) then
           (file, Inr (Some (cross_mark @ '' No active session. Use /start first'')))
         else
           (let participants = participants (session data)
            in if participants = [] then
                 (file, Inr (Some (cross_mark @ '' No players have joined yet!'')))
               else
                 (let player_list =
                        map (\<lambda>phone. dict_get (players data) phone \<lparr>name = ''Unknown''\<rparr>)
                            participants;
                      teams = create_teams rnd player_list;
                      result = game_die @ '' *RANDOM TEAM SELECTION*'' @ nl @ nl @
                               format_teams teams;
                      result = result @ ''Total Players: '' @ str_nat (length player_list) @ nl;
                      result = result @ ''Teams Created: '' @ str_nat (length teams);
                      data = data\<lparr>session := (session data)\<lparr>active := False\<rparr>\<rparr>
                  in (save_data data file, Inr (Some result)))))
      else if msg = ''/status'' then
        (if \<not> is_admin sender data then
           (file, Inr (Some (cross_mark @ '' Admin only command'')))
         else
           (let session = session data;
                status = (if active session then green_circle @ '' ACTIVE''
                          else red_circle @ '' INACTIVE'');
                participant_count = length (participants session);
                status_msg = bar_chart @ '' *SESSION STATUS*'' @ nl @ nl;
                status_msg = status_msg @ ''Status: '' @ status @ nl;
                status_msg = status_msg @ ''Players In: '' @ str_nat participant_count @ nl @ nl;
                status_msg =
                  (if participant_count > 0 then
                     foldl (\<lambda>status_msg phone.
                              status_msg @
                              player_line (dict_get (players data) phone \<lparr>name = ''Unknown''\<rparr>))
                           (status_msg @ ''Participants:'' @ nl)
                           (participants session)
                   else status_msg)
            in (file, Inr (Some status_msg))))
      else if msg = ''/reset'' then
        (if \<not> is_admin sender data then
           (file, Inr (Some (cross_mark @ '' Only admins can reset'')))
         else
           (let data = data\<lparr>session := (session data)\<lparr>active := False\<rparr>\<rparr>;
                data = data\<lparr>session := (session data)\<lparr>participants := []\<rparr>\<rparr>
            in (save_data data file,
                Inr (Some (arrows @ '' Session reset. Use /start to begin new selection'')))))
      else if msg = ''in'' then
        (if \<not> active (session data) then
           (file, Inr (Some (cross_mark @ '' No active selection. Wait for admin to /start'')))
         else
           (let data = (if players data sender = None
                        then data\<lparr>players := (players data)(sender \<mapsto> \<lparr>name = profile_name\<rparr>)\<rparr>
                        else data)
            in if sender \<notin> set (participants (session data)) then
                 (let data = data\<lparr>session := (session data)
                               \<lparr>participants := participants (session data) @ [sender]\<rparr>\<rparr>;
                      file = save_data data file
                  in case getitem (players data) sender of
                       Inl e \<Rightarrow> (file, Inl e)
                     | Inr info \<Rightarrow>
                         (file, Inr (Some (check_mark @ '' '' @ name info @ '' is IN!'' @ nl @
                                           ''Current count: '' @
                                           str_nat (length (participants (session data))) @
                                           '' players''))))
               else
                 (case getitem (players data) sender of
                    Inl e \<Rightarrow> (file, Inl e)
                  | Inr info \<Rightarrow>
                      (file, Inr (Some (info_sign @ '' You're already in, '' @ name info @ ''!''))))))
      else if msg = ''out'' then
        (if \<not> active (session data) then
           (file, Inr (Some (cross_mark @ '' No active selection'')))
         else if sender \<in> set (participants (session data)) then
           (let data = data\<lparr>session := (session data)
                         \<lparr>participants := remove1 sender (participants (session data))\<rparr>\<rparr>;
                file = save_data data file;
                player_name = (case players data sender of
                                 Some info \<Rightarrow> name info
                               | None \<Rightarrow> profile_name)
            in (file, Inr (Some (cross_mark @ '' '' @ player_name @ '' is OUT'' @ nl @
                                 ''Current count: '' @
                                 str_nat (length (participants (session data))) @
                                 '' players''))))
         else
           (file, Inr (Some (info_sign @ '' You weren't in the list''))))
      else if msg = ''/help'' then
        (let help_text = soccer_ball @ '' *FOOTBALL BOT COMMANDS*'' @ nl @ nl;
             help_text = help_text @ ''*Everyone:*'' @ nl;
             help_text = help_text @ bullet @ '' in - Join this week'' @ nl;
             help_text = help_text @ bullet @ '' out - Skip this week'' @ nl @ nl;
             help_text =
               (if is_admin sender data then
                  help_text @ ''*Admin Only:*'' @ nl @
                  bullet @ '' /start - Start selection'' @ nl @
                  bullet @ '' /end - Create random teams'' @ nl @
                  bullet @ '' /status - View status'' @ nl @
                  bullet @ '' /reset - Reset session''
                else help_text)
         in (file, Inr (Some help_text)))
      else
        (if startswith msg ''/'' then
           (file, Inr (Some (question_mark @ '' Unknown command. Send /help for commands'')))
         else (file, Inr None)))"

section \<open>Sequences of requests\<close>

text \<open>
  The file after the webhook has handled a list of requests one after the other, each with
  the random source of its own call.
\<close>

fun serve :: "((nat \<Rightarrow> nat) \<times> request) list \<Rightarrow> store option \<Rightarrow> store option" where
  "serve [] file = file"
| "serve ((rnd, values) # requests) file = serve requests (fst (whatsapp_bot rnd values file))"

section \<open>A store and requests to evaluate the handler on\<close>

text \<open>
  \<open>message\<close> builds the values of a request. \<open>club\<close> has one admin, one registered
  player who is in, and one participant without a player record.
\<close>

definition message :: "string \<Rightarrow> string \<Rightarrow> string \<Rightarrow> request" where
  "message body sender profile_name =
     [''Body'' \<mapsto> body, ''From'' \<mapsto> sender, ''ProfileName'' \<mapsto> profile_name]"

definition club :: store where
  "club = \<lparr>admins = [''+1''],
           players = [''+2'' \<mapsto> \<lparr>name = ''Bea''\<rparr>],
           session = \<lparr>active = True, participants = [''+2'', ''+3'']\<rparr>\<rparr>"

section \<open>Properties of the partitioner\<close>

lemma length_shuffle_from: "length (shuffle_from rnd k x) = length x"
  by (induction k arbitrary: x) (simp_all add: Let_def)

lemma mset_shuffle_from: "k < length x \<Longrightarrow> mset (shuffle_from rnd k x) = mset x"
proof (induction k arbitrary: x)
  case 0
  show ?case by simp
next
  case (Suc k)
  let ?i = "Suc k"
  let ?j = "rnd ?i mod (?i + 1)"
  have "?j < Suc (Suc k)" by simp
  with Suc.prems have j: "?j < length x" by linarith
  have swap: "mset (x[?i := x ! ?j, ?j := x ! ?i]) = mset x"
    using mset_swap [OF j Suc.prems] .
  have "k < length (x[?i := x ! ?j, ?j := x ! ?i])"
    using Suc.prems by simp
  from Suc.IH [OF this] swap show ?case
    by (simp add: Let_def)
qed

lemma mset_shuffle: "mset (shuffle rnd x) = mset x"
proof (cases x)
  case Nil
  then show ?thesis by (simp add: shuffle_def)
next
  case (Cons a as)
  then show ?thesis by (simp add: shuffle_def mset_shuffle_from)
qed

lemma length_shuffle: "length (shuffle rnd x) = length x"
  by (simp add: shuffle_def length_shuffle_from)

lemma ceil_step: "0 < (d::nat) \<Longrightarrow> (d + 5) div 6 = Suc ((d - 6 + 5) div 6)"
proof (cases "d < 6")
  case True
  assume "0 < d"
  with True have "(d + 5) div 6 = 1" by simp
  with True show ?thesis by simp
next
  case False
  then have "d + 5 = (d - 6 + 5) + 6" by simp
  then have "(d + 5) div 6 = ((d - 6 + 5) + 6) div 6" by simp
  then show ?thesis by simp
qed

lemma ceil_cover: "(n::nat) \<le> 6 * ((n + 5) div 6)"
proof -
  have "n + 5 = 6 * ((n + 5) div 6) + (n + 5) mod 6" by simp
  moreover have "(n + 5) mod 6 < 6" by simp
  ultimately show ?thesis by linarith
qed

text \<open>The loop in closed form: team \<open>k\<close> of the remaining ones is the slice at \<open>i + 6 k\<close>.\<close>

lemma create_teams_loop_closed:
  "create_teams_loop i n xs teams =
     teams @ map (\<lambda>k. take PLAYERS_PER_TEAM (drop (i + PLAYERS_PER_TEAM * k) xs))
                 [0 ..< (n - i + (PLAYERS_PER_TEAM - 1)) div PLAYERS_PER_TEAM]"
proof (induction i n xs teams rule: create_teams_loop.induct)
  case (1 i n xs teams)
  show ?case
  proof (cases "i < n")
    case False
    then show ?thesis
      by (simp add: create_teams_loop.simps [of i] PLAYERS_PER_TEAM_def)
  next
    case True
    have cnt: "(n - i + (PLAYERS_PER_TEAM - 1)) div PLAYERS_PER_TEAM =
               Suc ((n - (i + PLAYERS_PER_TEAM) + (PLAYERS_PER_TEAM - 1)) div PLAYERS_PER_TEAM)"
    proof -
      have "0 < n - i" using True by simp
      from ceil_step [OF this] show ?thesis
        by (simp add: PLAYERS_PER_TEAM_def)
    qed
    have shift: "map (\<lambda>k. take PLAYERS_PER_TEAM (drop (i + PLAYERS_PER_TEAM * k) xs)) [0 ..< Suc m] =
                 take PLAYERS_PER_TEAM (drop i xs) #
                 map (\<lambda>k. take PLAYERS_PER_TEAM (drop (i + PLAYERS_PER_TEAM + PLAYERS_PER_TEAM * k) xs)) [0 ..< m]"
      for m
    proof -
      have "[0 ..< Suc m] = 0 # map Suc [0 ..< m]"
        by (simp add: upt_conv_Cons map_Suc_upt del: upt_Suc)
      then show ?thesis
        by (simp add: o_def add.assoc del: upt_Suc)
    qed
    let ?m = "(n - (i + PLAYERS_PER_TEAM) + (PLAYERS_PER_TEAM - 1)) div PLAYERS_PER_TEAM"
    have "create_teams_loop i n xs teams =
          create_teams_loop (i + PLAYERS_PER_TEAM) n xs
            (teams @ [slice xs i (i + PLAYERS_PER_TEAM)])"
      using True by (simp add: create_teams_loop.simps [of i])
    also have "\<dots> = (teams @ [slice xs i (i + PLAYERS_PER_TEAM)]) @
          map (\<lambda>k. take PLAYERS_PER_TEAM (drop (i + PLAYERS_PER_TEAM + PLAYERS_PER_TEAM * k) xs)) [0 ..< ?m]"
      by (rule "1.IH" [OF True])
    also have "\<dots> = teams @
          map (\<lambda>k. take PLAYERS_PER_TEAM (drop (i + PLAYERS_PER_TEAM * k) xs)) [0 ..< Suc ?m]"
      unfolding shift by (simp add: slice_def)
    finally show ?thesis
      unfolding cnt .
  qed
qed

lemma create_teams_closed:
  "create_teams rnd ps =
     map (\<lambda>k. take PLAYERS_PER_TEAM (drop (PLAYERS_PER_TEAM * k) (shuffle rnd ps)))
         [0 ..< (length ps + (PLAYERS_PER_TEAM - 1)) div PLAYERS_PER_TEAM]"
  by (simp add: create_teams_def Let_def create_teams_loop_closed PLAYERS_PER_TEAM_def)

lemma concat_chunks:
  "concat (map (\<lambda>k. take c (drop (i + c * k) xs)) [0 ..< m]) = take (c * m) (drop i xs)"
proof (induction m)
  case 0
  show ?case by simp
next
  case (Suc m)
  have "take (c * m + c) (drop i xs) = take (c * m) (drop i xs) @ take c (drop (c * m) (drop i xs))"
    by (rule take_add)
  then have "take (c * m) (drop i xs) @ take c (drop (i + c * m) xs) = take (c * Suc m) (drop i xs)"
    by (simp add: add.commute)
  with Suc show ?case by simp
qed

lemma concat_create_teams: "concat (create_teams rnd ps) = shuffle rnd ps"
proof -
  let ?c = PLAYERS_PER_TEAM
  let ?m = "(length ps + (?c - 1)) div ?c"
  have "length ps \<le> ?c * ?m"
    using ceil_cover [of "length ps"] by (simp add: PLAYERS_PER_TEAM_def)
  then have "take (?c * ?m) (shuffle rnd ps) = shuffle rnd ps"
    by (simp add: length_shuffle)
  moreover have "concat (create_teams rnd ps) = take (?c * ?m) (drop 0 (shuffle rnd ps))"
    unfolding create_teams_closed using concat_chunks [of ?c 0] by simp
  ultimately show ?thesis by simp
qed

lemma ceil_tight: "0 < (n::nat) \<Longrightarrow> 6 * ((n + 5) div 6 - 1) < n"
proof -
  assume pos: "0 < n"
  have e: "n + 5 = 6 * ((n + 5) div 6) + (n + 5) mod 6" by simp
  have r: "(n + 5) mod 6 < 6" by simp
  have "1 \<le> (n + 5) div 6" using pos by simp
  with e r show ?thesis by linarith
qed

text \<open>
  Claim C1. For every list \<open>ps\<close> of \<open>n\<close> players and every outcome of the shuffle, with
  the capacity \<open>c = 6\<close>: \<open>create_teams\<close> returns \<open>m = ceil (n / c)\<close> teams (\<open>m\<close> is
  \<open>(n + (c - 1)) div c\<close>, the least number with \<open>n \<le> c * m\<close>); the concatenation of the
  teams is a permutation of the input, so no player is lost or duplicated; every team
  but the last has exactly \<open>c\<close> players; when \<open>n > 0\<close> the last team has
  \<open>n - c * (m - 1)\<close> players, a number between \<open>1\<close> and \<open>c\<close>; and the empty input gives
  the empty sequence of teams.
\<close>

theorem create_teams_partition:
  "let teams = create_teams rnd ps;
       n = length ps;
       c = PLAYERS_PER_TEAM;
       m = (n + (c - 1)) div c
   in c = 6 \<and>
      n \<le> c * m \<and> (0 < n \<longrightarrow> c * (m - 1) < n) \<and>
      length teams = m \<and>
      mset (concat teams) = mset ps \<and>
      (\<forall>k. k + 1 < length teams \<longrightarrow> length (teams ! k) = c) \<and>
      (0 < n \<longrightarrow> length (last teams) = n - c * (m - 1) \<and>
                 1 \<le> n - c * (m - 1) \<and> n - c * (m - 1) \<le> c) \<and>
      (ps = [] \<longrightarrow> teams = [])"
proof -
  let ?teams = "create_teams rnd ps"
  let ?n = "length ps"
  let ?m = "(?n + 5) div 6"
  let ?xs = "shuffle rnd ps"
  have closed: "?teams = map (\<lambda>k. take 6 (drop (6 * k) ?xs)) [0 ..< ?m]"
    using create_teams_closed [of rnd ps] by (simp add: PLAYERS_PER_TEAM_def)
  have len: "length ?teams = ?m"
    by (simp add: closed)
  have nth: "length (?teams ! k) = min 6 (?n - 6 * k)" if "k < ?m" for k
    using that by (simp add: closed length_shuffle min.commute)
  have cover: "?n \<le> 6 * ?m" by (rule ceil_cover)
  have tight: "6 * (?m - 1) < ?n" if "0 < ?n"
    using that by (rule ceil_tight)
  have perm: "mset (concat ?teams) = mset ps"
    by (simp add: concat_create_teams mset_shuffle)
  have full: "length (?teams ! k) = 6" if "k + 1 < length ?teams" for k
  proof -
    from that have k: "k + 1 < ?m" by (simp add: len)
    then have "0 < ?n" by (cases "?n = 0") simp_all
    from tight [OF this] k have "6 * k + 6 \<le> ?n" by linarith
    with nth [of k] k show ?thesis by simp
  qed
  have lastt: "length (last ?teams) = ?n - 6 * (?m - 1) \<and>
               1 \<le> ?n - 6 * (?m - 1) \<and> ?n - 6 * (?m - 1) \<le> 6"
    if "0 < ?n"
  proof -
    from that cover have m: "0 < ?m" by linarith
    then have "?teams \<noteq> []" using len by auto
    then have "last ?teams = ?teams ! (?m - 1)"
      by (simp add: last_conv_nth len)
    moreover have "length (?teams ! (?m - 1)) = min 6 (?n - 6 * (?m - 1))"
      using m by (intro nth) simp
    moreover have "?n - 6 * (?m - 1) \<le> 6" using cover m by linarith
    moreover have "1 \<le> ?n - 6 * (?m - 1)" using tight [OF that] by linarith
    ultimately show ?thesis by simp
  qed
  have empty: "?teams = []" if "ps = []"
    using that by (simp add: create_teams_def)
  show ?thesis
    unfolding Let_def PLAYERS_PER_TEAM_def
    using len perm full lastt empty cover tight
    by (simp add: PLAYERS_PER_TEAM_def)
qed

theorem create_teams_partition_witness:
  "create_teams (\<lambda>i. 7 * i + 3) [1, 2, 3, 4, 5, 6, 7, 8, 9, 10, 11, 12, 13 :: nat]
     = [[11, 13, 12, 1, 2, 3], [4, 5, 6, 7, 8, 9], [10]] \<and>
   length (create_teams (\<lambda>i. 7 * i + 3) [1, 2, 3, 4, 5, 6, 7, 8, 9, 10, 11, 12, 13 :: nat]) = 3 \<and>
   length (create_teams (\<lambda>i. 7 * i + 3) [1, 2, 3, 4, 5, 6, 7, 8, 9, 10, 11, 12, 13 :: nat] ! 0) = 6 \<and>
   length (create_teams (\<lambda>i. 7 * i + 3) [1, 2, 3, 4, 5, 6, 7, 8, 9, 10, 11, 12, 13 :: nat] ! 1) = 6 \<and>
   length (last (create_teams (\<lambda>i. 7 * i + 3) [1, 2, 3, 4, 5, 6, 7, 8, 9, 10, 11, 12, 13 :: nat])) = 1 \<and>
   create_teams (\<lambda>i. 7 * i + 3) ([] :: nat list) = []"
proof -
  let ?ps = "[1, 2, 3, 4, 5, 6, 7, 8, 9, 10, 11, 12, 13 :: nat]"
  let ?ts = "create_teams (\<lambda>i. 7 * i + 3) ?ps"
  have val: "?ts = [[11, 13, 12, 1, 2, 3], [4, 5, 6, 7, 8, 9], [10]]"
    by code_simp
  note t = create_teams_partition [of "\<lambda>i. 7 * i + 3" ?ps, unfolded Let_def]
  from t have len: "length ?ts = 3" by (simp add: PLAYERS_PER_TEAM_def)
  from t have full: "\<forall>k. k + 1 < length ?ts \<longrightarrow> length (?ts ! k) = PLAYERS_PER_TEAM" by blast
  from full len have f0: "length (?ts ! 0) = 6" by (simp add: PLAYERS_PER_TEAM_def)
  from full len have f1: "length (?ts ! 1) = 6" by (simp add: PLAYERS_PER_TEAM_def)
  from t have l: "length (last ?ts) = 1" by (simp add: PLAYERS_PER_TEAM_def)
  from create_teams_partition [of "\<lambda>i. 7 * i + 3" "[] :: nat list", unfolded Let_def]
  have e: "create_teams (\<lambda>i. 7 * i + 3) ([] :: nat list) = []" by simp
  from val len f0 f1 l e show ?thesis by blast
qed

section \<open>Properties of the handler\<close>

lemmas norm_defs = lower_def strip_def lstrip_def rstrip_def strip_left.simps space_prefix_def
  whitespace_def lower_char_def dict_get_def

lemmas eval_defs = norm_defs message_def club_def load_data_def

text \<open>
  Whitespace outside ASCII is stripped like the ASCII one: a body that is a command
  padded with a no-break space U+00A0 or an em space U+2003 normalises to the command, and
  the handler runs it.
\<close>

lemma strip_unicode_whitespace:
  "strip (''in'' @ [CHR 0xC2, CHR 0xA0]) = ''in'' \<and>
   strip ([CHR 0xE2, CHR 0x80, CHR 0x83] @ ''/reset'') = ''/reset'' \<and>
   strip ([CHR 0xE3, CHR 0x80, CHR 0x80, CHR 0x09] @ ''a b'' @ [CHR 0x20, CHR 0xC2, CHR 0x85, CHR 0x0A]) = ''a b'' \<and>
   strip [CHR 0xE2, CHR 0x80, CHR 0xA8, CHR 0x20] = [] \<and>
   strip [CHR 0xE2, CHR 0x82, CHR 0xA0] = [CHR 0xE2, CHR 0x82, CHR 0xA0]"
  by (simp add: strip_def lstrip_def rstrip_def strip_left.simps space_prefix_def whitespace_def)

lemma padded_commands_run:
  "fst (whatsapp_bot (\<lambda>i. 0) (message (''in'' @ [CHR 0xC2, CHR 0xA0]) ''+4'' ''Dan'') (Some club)) =
     Some (club\<lparr>players := (players club)(''+4'' \<mapsto> \<lparr>name = ''Dan''\<rparr>),
                session := \<lparr>active = True, participants = [''+2'', ''+3'', ''+4'']\<rparr>\<rparr>) \<and>
   whatsapp_bot (\<lambda>i. 0) (message ([CHR 0xE2, CHR 0x80, CHR 0x83] @ ''/reset'') ''+1'' ''Al'')
     (Some club) =
     (Some (club\<lparr>session := \<lparr>active = False, participants = []\<rparr>\<rparr>),
      Inr (Some (arrows @ '' Session reset. Use /start to begin new selection'')))"
  by (simp add: whatsapp_bot_def Let_def is_admin_def save_data_def getitem_def
        lower_def strip_def lstrip_def rstrip_def strip_left.simps space_prefix_def
        whitespace_def lower_char_def dict_get_def message_def club_def load_data_def)

text \<open>The two player commands, with the lookups of the source resolved.\<close>

lemma bot_in:
  assumes "lower (strip (dict_get values ''Body'' [])) = ''in''"
  shows "whatsapp_bot rnd values file =
     (let sender = dict_get values ''From'' [];
          profile_name = dict_get values ''ProfileName'' ''Player'';
          data = load_data file;
          info = dict_get (players data) sender \<lparr>name = profile_name\<rparr>
      in if \<not> active (session data) then
           (file, Inr (Some (cross_mark @ '' No active selection. Wait for admin to /start'')))
         else if sender \<notin> set (participants (session data)) then
           (Some (data\<lparr>players := (players data)(sender \<mapsto> info),
                       session := (session data)
                         \<lparr>participants := participants (session data) @ [sender]\<rparr>\<rparr>),
            Inr (Some (check_mark @ '' '' @ name info @ '' is IN!'' @ nl @
                       ''Current count: '' @
                       str_nat (Suc (length (participants (session data)))) @
                       '' players'')))
         else
           (file, Inr (Some (info_sign @ '' You're already in, '' @ name info @ ''!''))))"
proof (cases "players (load_data file) (dict_get values ''From'' [])")
  case None
  with assms show ?thesis
    by (simp add: whatsapp_bot_def Let_def getitem_def save_data_def dict_get_def)
next
  case (Some a)
  with assms show ?thesis
    by (simp add: whatsapp_bot_def Let_def getitem_def save_data_def dict_get_def
                  fun_upd_idem)
qed

lemma bot_out:
  assumes "lower (strip (dict_get values ''Body'' [])) = ''out''"
  shows "whatsapp_bot rnd values file =
     (let sender = dict_get values ''From'' [];
          profile_name = dict_get values ''ProfileName'' ''Player'';
          data = load_data file
      in if \<not> active (session data) then
           (file, Inr (Some (cross_mark @ '' No active selection'')))
         else if sender \<in> set (participants (session data)) then
           (Some (data\<lparr>session := (session data)
                         \<lparr>participants := remove1 sender (participants (session data))\<rparr>\<rparr>),
            Inr (Some (cross_mark @ '' '' @
                       (case players data sender of Some info \<Rightarrow> name info | None \<Rightarrow> profile_name) @
                       '' is OUT'' @ nl @ ''Current count: '' @
                       str_nat (length (remove1 sender (participants (session data)))) @
                       '' players'')))
         else (file, Inr (Some (info_sign @ '' You weren't in the list''))))"
  using assms by (simp add: whatsapp_bot_def Let_def save_data_def)

text \<open>What a request does to each part of the store, whatever the command.\<close>

lemma bot_total: "\<exists>file' reply. whatsapp_bot rnd values file = (file', Inr reply)"
proof (cases "lower (strip (dict_get values ''Body'' [])) = ''in''")
  case True
  from bot_in [OF True] show ?thesis by (simp add: Let_def)
next
  case False
  then show ?thesis
    by (simp add: whatsapp_bot_def Let_def)
qed

lemma bot_admins:
  "admins (load_data (fst (whatsapp_bot rnd values file))) =
     (if startswith (lower (strip (dict_get values ''Body'' []))) ''/addadmin'' \<and>
         admins (load_data file) = []
      then [dict_get values ''From'' []]
      else admins (load_data file))"
proof (cases "lower (strip (dict_get values ''Body'' [])) = ''in''")
  case True
  from bot_in [OF True] True show ?thesis by (simp add: Let_def load_data_def)
next
  case False
  then show ?thesis
    by (simp add: whatsapp_bot_def Let_def save_data_def is_admin_def load_data_def)
qed

lemma bot_distinct:
  assumes "distinct (participants (session (load_data file)))"
  shows "distinct (participants (session (load_data (fst (whatsapp_bot rnd values file)))))"
proof (cases "lower (strip (dict_get values ''Body'' [])) = ''in''")
  case True
  from bot_in [OF True] assms show ?thesis by (simp add: Let_def load_data_def)
next
  case False
  with assms show ?thesis
    by (simp add: whatsapp_bot_def Let_def save_data_def load_data_def)
qed

lemma serve_admins:
  "admins (load_data file) \<noteq> [] \<Longrightarrow> admins (load_data (serve requests file)) = admins (load_data file)"
proof (induction requests arbitrary: "file")
  case Nil
  show ?case by simp
next
  case (Cons r requests)
  obtain g v where r: "r = (g, v)" by (cases r)
  have keep: "admins (load_data (fst (whatsapp_bot g v file))) = admins (load_data file)"
    using Cons.prems by (simp add: bot_admins)
  with Cons.prems have "admins (load_data (fst (whatsapp_bot g v file))) \<noteq> []" by simp
  from Cons.IH [OF this] keep show ?case by (simp add: r)
qed

lemma serve_distinct:
  "distinct (participants (session (load_data file))) \<Longrightarrow>
   distinct (participants (session (load_data (serve requests file))))"
proof (induction requests arbitrary: "file")
  case Nil
  then show ?case by simp
next
  case (Cons r requests)
  obtain g v where r: "r = (g, v)" by (cases r)
  from Cons.IH [OF bot_distinct [OF Cons.prems]] show ?case by (simp add: r)
qed

lemma count_list_distinct:
  "distinct xs \<Longrightarrow> count_list xs x = (if x \<in> set xs then 1 else 0)"
  by (induction xs) auto

text \<open>The text of \<open>format_teams\<close> holds the line of every player of every team.\<close>

lemma foldl_player_lines:
  "foldl (\<lambda>text x. text @ player_line (f x)) text xs = text @ concat (map (\<lambda>x. player_line (f x)) xs)"
  by (induction xs arbitrary: "text") simp_all

lemma line_in_concat:
  assumes "x \<in> set xs"
  shows "\<exists>pre post. concat (map (\<lambda>x. player_line (f x)) xs) = pre @ player_line (f x) @ post"
proof -
  from assms obtain ys zs where "xs = ys @ x # zs"
    by (auto dest: split_list)
  then have "concat (map (\<lambda>x. player_line (f x)) xs) =
             concat (map (\<lambda>x. player_line (f x)) ys) @ player_line (f x) @
             concat (map (\<lambda>x. player_line (f x)) zs)"
    by simp
  then show ?thesis by blast
qed

lemma format_teams_loop_extends: "\<exists>suffix. format_teams_loop i teams text = text @ suffix"
proof (induction teams arbitrary: i "text")
  case Nil
  show ?case by simp
next
  case (Cons team teams)
  show ?case
  proof (cases "team = []")
    case True
    with Cons.IH [of "Suc i" "text"] show ?thesis by simp
  next
    case False
    let ?text = "(foldl (\<lambda>text p. text @ player_line p)
                   (text @ team_emojis ! (i mod length team_emojis) @ '' *'' @
                    team_names ! (i mod length team_names) @ '' Team* ('' @
                    str_nat (length team) @ '' players)'' @ nl) team) @ nl"
    from Cons.IH [of "Suc i" ?text] obtain suffix
      where s: "format_teams_loop (Suc i) teams ?text = ?text @ suffix" by blast
    have "\<exists>mid. ?text = text @ mid"
      using foldl_player_lines [of "\<lambda>p. p"] by simp
    then obtain mid where "?text = text @ mid" by blast
    with s have "format_teams_loop (Suc i) teams ?text = text @ (mid @ suffix)" by simp
    with False show ?thesis by (simp add: Let_def)
  qed
qed

lemma format_teams_loop_line:
  assumes "p \<in> set (concat teams)"
  shows "\<exists>pre post. format_teams_loop i teams text = pre @ player_line p @ post"
  using assms
proof (induction teams arbitrary: i "text")
  case Nil
  then show ?case by simp
next
  case (Cons team teams)
  show ?case
  proof (cases "team = []")
    case True
    with Cons.prems have "p \<in> set (concat teams)" by simp
    from Cons.IH [OF this, of "Suc i" "text"] True show ?thesis by simp
  next
    case False
    let ?head = "text @ team_emojis ! (i mod length team_emojis) @ '' *'' @
                    team_names ! (i mod length team_names) @ '' Team* ('' @
                    str_nat (length team) @ '' players)'' @ nl"
    let ?text = "(foldl (\<lambda>text p. text @ player_line p) ?head team) @ nl"
    have step: "format_teams_loop i (team # teams) text = format_teams_loop (Suc i) teams ?text"
      using False by (simp add: Let_def)
    show ?thesis
    proof (cases "p \<in> set team")
      case True
      from line_in_concat [OF True, of "\<lambda>p. p"] obtain a b
        where "concat (map player_line team) = a @ player_line p @ b" by blast
      then have t: "?text = (?head @ a) @ player_line p @ (b @ nl)"
        using foldl_player_lines [of "\<lambda>p. p" ?head team] by simp
      from format_teams_loop_extends [of "Suc i" teams ?text] obtain suffix
        where "format_teams_loop (Suc i) teams ?text = ?text @ suffix" by blast
      with t have "format_teams_loop (Suc i) teams ?text =
                   (?head @ a) @ player_line p @ (b @ nl @ suffix)" by simp
      with step show ?thesis by metis
    next
      case False
      with Cons.prems have "p \<in> set (concat teams)" by simp
      from Cons.IH [OF this, of "Suc i" ?text] step show ?thesis by simp
    qed
  qed
qed

lemma format_teams_line:
  assumes "p \<in> set (concat teams)"
  shows "\<exists>pre post. format_teams teams = pre @ player_line p @ post"
  unfolding format_teams_def Let_def by (rule format_teams_loop_line [OF assms])

lemma set_concat_create_teams: "set (concat (create_teams rnd ps)) = set ps"
proof -
  have "mset (concat (create_teams rnd ps)) = mset ps"
    by (simp add: concat_create_teams mset_shuffle)
  then show ?thesis by (rule mset_eq_setD)
qed

text \<open>
  Claim C2, as amended. For every store with an active session whose list of participants
  has no duplicates, and two requests in a row from the same sender that both normalise to
  "in": afterwards the sender is in the list of participants exactly once. When the
  sender was not a participant, the first call appends the sender and reports the new
  count; when the sender was one already, the first call reports "already in" and
  leaves the file as it is. The second call reports "already in" and leaves the file
  as it is. No sequence of requests ever puts a duplicate into the list.
\<close>

theorem join_twice:
  assumes "lower (strip (dict_get values1 ''Body'' [])) = ''in''"
    and "lower (strip (dict_get values2 ''Body'' [])) = ''in''"
    and "dict_get values2 ''From'' [] = dict_get values1 ''From'' []"
    and "active (session (load_data file))"
    and "distinct (participants (session (load_data file)))"
  shows "let sender = dict_get values1 ''From'' [];
             data = load_data file;
             r1 = whatsapp_bot rnd1 values1 file;
             r2 = whatsapp_bot rnd2 values2 (fst r1);
             info1 = dict_get (players data) sender
                       \<lparr>name = dict_get values1 ''ProfileName'' ''Player''\<rparr>;
             info2 = dict_get (players (load_data (fst r1))) sender
                       \<lparr>name = dict_get values2 ''ProfileName'' ''Player''\<rparr>
         in count_list (participants (session (load_data (fst r2)))) sender = 1 \<and>
            (sender \<notin> set (participants (session data)) \<longrightarrow>
               participants (session (load_data (fst r1))) =
                 participants (session data) @ [sender] \<and>
               snd r1 = Inr (Some (check_mark @ '' '' @ name info1 @ '' is IN!'' @ nl @
                                   ''Current count: '' @
                                   str_nat (length (participants (session data)) + 1) @
                                   '' players''))) \<and>
            (sender \<in> set (participants (session data)) \<longrightarrow>
               r1 = (file, Inr (Some (info_sign @ '' You're already in, '' @ name info1 @ ''!'')))) \<and>
            r2 = (fst r1, Inr (Some (info_sign @ '' You're already in, '' @ name info2 @ ''!''))) \<and>
            (\<forall>requests. distinct (participants (session (load_data (serve requests file)))))"
proof -
  let ?sender = "dict_get values1 ''From'' []"
  let ?data = "load_data file"
  let ?r1 = "whatsapp_bot rnd1 values1 file"
  let ?r2 = "whatsapp_bot rnd2 values2 (fst ?r1)"
  let ?info1 = "dict_get (players ?data) ?sender \<lparr>name = dict_get values1 ''ProfileName'' ''Player''\<rparr>"
  let ?info2 = "dict_get (players (load_data (fst ?r1))) ?sender
                  \<lparr>name = dict_get values2 ''ProfileName'' ''Player''\<rparr>"
  note in1 = bot_in [OF assms(1), of rnd1 "file", unfolded Let_def]
  note in2 = bot_in [OF assms(2), of rnd2 "fst ?r1", unfolded Let_def assms(3)]
  have new: "participants (session (load_data (fst ?r1))) = participants (session ?data) @ [?sender] \<and>
             snd ?r1 = Inr (Some (check_mark @ '' '' @ name ?info1 @ '' is IN!'' @ nl @
                                   ''Current count: '' @
                                   str_nat (length (participants (session ?data)) + 1) @
                                   '' players''))"
    if "?sender \<notin> set (participants (session ?data))"
    using in1 that assms(4) by (simp add: load_data_def)
  have old: "?r1 = (file, Inr (Some (info_sign @ '' You're already in, '' @ name ?info1 @ ''!'')))"
    if "?sender \<in> set (participants (session ?data))"
    using in1 that assms(4) by simp
  have act1: "active (session (load_data (fst ?r1)))"
    using in1 assms(4) by (simp add: load_data_def)
  have mem1: "?sender \<in> set (participants (session (load_data (fst ?r1))))"
    using in1 assms(4) by (simp add: load_data_def)
  have dis1: "distinct (participants (session (load_data (fst ?r1))))"
    using assms(5) by (rule bot_distinct)
  have second: "?r2 = (fst ?r1, Inr (Some (info_sign @ '' You're already in, '' @ name ?info2 @ ''!'')))"
    using in2 act1 mem1 by simp
  have once: "count_list (participants (session (load_data (fst ?r2)))) ?sender = 1"
    using second mem1 dis1 by (simp add: count_list_distinct)
  have inv: "distinct (participants (session (load_data (serve requests file))))" for requests
    using assms(5) by (rule serve_distinct)
  show ?thesis
    unfolding Let_def using new old second once inv by blast
qed

text \<open>
  Claim C2 as stated speaks of every active session and has the first call append the
  sender and report the new count. In the active session below the sender is a
  participant already: the first "in" reports "already in", and the list of
  participants is not the old one with the sender appended.
\<close>

theorem join_first_call_counterexample:
  "active (session \<lparr>admins = [], players = [''+100'' \<mapsto> \<lparr>name = ''Ann''\<rparr>],
                    session = \<lparr>active = True, participants = [''+100'']\<rparr>\<rparr>) \<and>
   lower (strip (dict_get [''Body'' \<mapsto> ''in'', ''From'' \<mapsto> ''+100'', ''ProfileName'' \<mapsto> ''Ann'']
                   ''Body'' [])) = ''in'' \<and>
   whatsapp_bot (\<lambda>i. 0) [''Body'' \<mapsto> ''in'', ''From'' \<mapsto> ''+100'', ''ProfileName'' \<mapsto> ''Ann'']
     (Some \<lparr>admins = [], players = [''+100'' \<mapsto> \<lparr>name = ''Ann''\<rparr>],
            session = \<lparr>active = True, participants = [''+100'']\<rparr>\<rparr>) =
     (Some \<lparr>admins = [], players = [''+100'' \<mapsto> \<lparr>name = ''Ann''\<rparr>],
            session = \<lparr>active = True, participants = [''+100'']\<rparr>\<rparr>,
      Inr (Some (info_sign @ '' You're already in, Ann!''))) \<and>
   participants (session (load_data (fst (
     whatsapp_bot (\<lambda>i. 0) [''Body'' \<mapsto> ''in'', ''From'' \<mapsto> ''+100'', ''ProfileName'' \<mapsto> ''Ann'']
       (Some \<lparr>admins = [], players = [''+100'' \<mapsto> \<lparr>name = ''Ann''\<rparr>],
              session = \<lparr>active = True, participants = [''+100'']\<rparr>\<rparr>))))) \<noteq>
     [''+100''] @ [''+100'']"
  by (simp add: whatsapp_bot_def Let_def norm_defs load_data_def getitem_def)

theorem join_twice_witness:
  "participants (session (load_data (fst (whatsapp_bot (\<lambda>i. 0) (message '' In '' ''+4'' ''Dan'')
      (Some club))))) = [''+2'', ''+3'', ''+4''] \<and>
   snd (whatsapp_bot (\<lambda>i. 0) (message '' In '' ''+4'' ''Dan'') (Some club)) =
     Inr (Some (check_mark @ '' Dan is IN!'' @ nl @ ''Current count: 3 players'')) \<and>
   snd (whatsapp_bot (\<lambda>i. 1) (message ''IN'' ''+4'' ''Danny'')
          (fst (whatsapp_bot (\<lambda>i. 0) (message '' In '' ''+4'' ''Dan'') (Some club)))) =
     Inr (Some (info_sign @ '' You're already in, Dan!'')) \<and>
   count_list (participants (session (load_data (fst (
      whatsapp_bot (\<lambda>i. 1) (message ''IN'' ''+4'' ''Danny'')
          (fst (whatsapp_bot (\<lambda>i. 0) (message '' In '' ''+4'' ''Dan'') (Some club)))))))) ''+4'' = 1 \<and>
   whatsapp_bot (\<lambda>i. 0) (message ''in'' ''+2'' ''Beatrix'') (Some club) =
     (Some club, Inr (Some (info_sign @ '' You're already in, Bea!'')))"
proof -
  let ?v1 = "message '' In '' ''+4'' ''Dan''"
  let ?v2 = "message ''IN'' ''+4'' ''Danny''"
  have h1: "lower (strip (dict_get ?v1 ''Body'' [])) = ''in''" by (simp add: eval_defs)
  have h2: "lower (strip (dict_get ?v2 ''Body'' [])) = ''in''" by (simp add: eval_defs)
  have h3: "dict_get ?v2 ''From'' [] = dict_get ?v1 ''From'' []" by (simp add: eval_defs)
  have h4: "active (session (load_data (Some club)))" by (simp add: eval_defs)
  have h5: "distinct (participants (session (load_data (Some club))))" by (simp add: eval_defs)
  have new: "dict_get ?v1 ''From'' [] \<notin> set (participants (session (load_data (Some club))))"
    by (simp add: eval_defs)
  note t = join_twice [OF h1 h2 h3 h4 h5, of "\<lambda>i. 0" "\<lambda>i. 1", unfolded Let_def]
  have s1: "fst (whatsapp_bot (\<lambda>i. 0) ?v1 (Some club)) =
              Some (club\<lparr>players := (players club)(''+4'' \<mapsto> \<lparr>name = ''Dan''\<rparr>),
                         session := \<lparr>active = True, participants = [''+2'', ''+3'', ''+4'']\<rparr>\<rparr>)"
    using bot_in [OF h1, of "\<lambda>i. 0" "Some club"] by (simp add: Let_def eval_defs)
  from t new have a: "participants (session (load_data (fst (whatsapp_bot (\<lambda>i. 0) ?v1 (Some club))))) =
                    participants (session (load_data (Some club))) @ [dict_get ?v1 ''From'' []]"
    by blast
  from t new have b: "snd (whatsapp_bot (\<lambda>i. 0) ?v1 (Some club)) =
      Inr (Some (check_mark @ '' '' @
        name (dict_get (players (load_data (Some club))) (dict_get ?v1 ''From'' [])
               \<lparr>name = dict_get ?v1 ''ProfileName'' ''Player''\<rparr>) @ '' is IN!'' @ nl @
        ''Current count: '' @
        str_nat (length (participants (session (load_data (Some club)))) + 1) @ '' players''))"
    by blast
  from t have c: "whatsapp_bot (\<lambda>i. 1) ?v2 (fst (whatsapp_bot (\<lambda>i. 0) ?v1 (Some club))) =
      (fst (whatsapp_bot (\<lambda>i. 0) ?v1 (Some club)),
       Inr (Some (info_sign @ '' You're already in, '' @
         name (dict_get (players (load_data (fst (whatsapp_bot (\<lambda>i. 0) ?v1 (Some club)))))
                (dict_get ?v1 ''From'' [])
                \<lparr>name = dict_get ?v2 ''ProfileName'' ''Player''\<rparr>) @ ''!'')))"
    by blast
  from t have d: "count_list (participants (session (load_data (fst (
      whatsapp_bot (\<lambda>i. 1) ?v2 (fst (whatsapp_bot (\<lambda>i. 0) ?v1 (Some club)))))))) (dict_get ?v1 ''From'' []) = 1"
    by blast
  have a': "participants (session (load_data (fst (whatsapp_bot (\<lambda>i. 0) ?v1 (Some club))))) =
            [''+2'', ''+3'', ''+4'']"
    using a by (simp add: eval_defs)
  have b': "snd (whatsapp_bot (\<lambda>i. 0) ?v1 (Some club)) =
            Inr (Some (check_mark @ '' Dan is IN!'' @ nl @ ''Current count: 3 players''))"
    using b by (simp add: eval_defs str_nat.simps)
  have c': "snd (whatsapp_bot (\<lambda>i. 1) ?v2 (fst (whatsapp_bot (\<lambda>i. 0) ?v1 (Some club)))) =
            Inr (Some (info_sign @ '' You're already in, Dan!''))"
    using c by (simp add: s1) (simp add: eval_defs)
  have d': "count_list (participants (session (load_data (fst (
      whatsapp_bot (\<lambda>i. 1) ?v2 (fst (whatsapp_bot (\<lambda>i. 0) ?v1 (Some club)))))))) ''+4'' = 1"
    using d by (simp add: eval_defs)
  let ?w = "message ''in'' ''+2'' ''Beatrix''"
  have g1: "lower (strip (dict_get ?w ''Body'' [])) = ''in''" by (simp add: eval_defs)
  have old: "dict_get ?w ''From'' [] \<in> set (participants (session (load_data (Some club))))"
    by (simp add: eval_defs)
  note u = join_twice [OF g1 g1 refl h4 h5, of "\<lambda>i. 0" "\<lambda>i. 0", unfolded Let_def]
  from u old have e: "whatsapp_bot (\<lambda>i. 0) ?w (Some club) =
      (Some club, Inr (Some (info_sign @ '' You're already in, '' @
         name (dict_get (players (load_data (Some club))) (dict_get ?w ''From'' [])
                \<lparr>name = dict_get ?w ''ProfileName'' ''Player''\<rparr>) @ ''!'')))"
    by blast
  have e': "whatsapp_bot (\<lambda>i. 0) ?w (Some club) =
      (Some club, Inr (Some (info_sign @ '' You're already in, Bea!'')))"
    using e by (simp add: eval_defs)
  from a' b' c' d' e' show ?thesis by blast
qed

text \<open>
  Claim C3. A request whose normalised text starts with \<open>/addadmin\<close> makes the sender
  the admin, saves the store and replies "You are now an admin!" exactly when the list
  of admins is empty; a sender who is an admin already is told so and the file is left
  as it is; in every other case (there are admins, the sender is not one) the reply is
  the denial and the file is left as it is. After the bootstrap has succeeded, no
  sequence of requests changes the list of admins again, so it succeeds exactly once.
\<close>

theorem addadmin_bootstrap:
  assumes "startswith (lower (strip (dict_get values ''Body'' []))) ''/addadmin''"
  shows "let sender = dict_get values ''From'' [];
             data = load_data file;
             result = whatsapp_bot rnd values file
         in (admins data = [] \<longrightarrow>
               result = (Some (data\<lparr>admins := [sender]\<rparr>),
                         Inr (Some (crown @ '' You are now an admin!''))) \<and>
               (\<forall>requests. admins (load_data (serve requests (fst result))) = [sender])) \<and>
            (sender \<in> set (admins data) \<longrightarrow>
               result = (file,
                         Inr (Some (check_mark @ '' You're already an admin!'' @ nl @ nl @
                                    ''Admin commands:'' @ nl @
                                    ''/start - Start selection'' @ nl @
                                    ''/end - Create random teams'' @ nl @
                                    ''/status - View current status'' @ nl @
                                    ''/reset - Reset session'')))) \<and>
            (admins data \<noteq> [] \<and> sender \<notin> set (admins data) \<longrightarrow>
               result = (file,
                         Inr (Some (cross_mark @ '' Only existing admins can add new admins'')))) \<and>
            (snd result = Inr (Some (crown @ '' You are now an admin!'')) \<longleftrightarrow> admins data = [])"
proof -
  let ?sender = "dict_get values ''From'' []"
  let ?data = "load_data file"
  let ?result = "whatsapp_bot rnd values file"
  have first: "?result = (Some (?data\<lparr>admins := [?sender]\<rparr>),
                          Inr (Some (crown @ '' You are now an admin!'')))"
    if "admins ?data = []"
    using assms that by (simp add: whatsapp_bot_def Let_def is_admin_def save_data_def)
  have once: "admins (load_data (serve requests (fst ?result))) = [?sender]"
    if "admins ?data = []" for requests
  proof -
    have "admins (load_data (fst ?result)) = [?sender]"
      using first [OF that] by (simp add: load_data_def)
    with serve_admins [of "fst ?result" requests] show ?thesis by simp
  qed
  have again: "?result = (file,
                         Inr (Some (check_mark @ '' You're already an admin!'' @ nl @ nl @
                                    ''Admin commands:'' @ nl @
                                    ''/start - Start selection'' @ nl @
                                    ''/end - Create random teams'' @ nl @
                                    ''/status - View current status'' @ nl @
                                    ''/reset - Reset session'')))"
    if "?sender \<in> set (admins ?data)"
    using assms that by (auto simp add: whatsapp_bot_def Let_def is_admin_def)
  have denied: "?result = (file,
                         Inr (Some (cross_mark @ '' Only existing admins can add new admins'')))"
    if "admins ?data \<noteq> []" "?sender \<notin> set (admins ?data)"
    using assms that by (simp add: whatsapp_bot_def Let_def is_admin_def)
  have iff: "snd ?result = Inr (Some (crown @ '' You are now an admin!'')) \<longleftrightarrow> admins ?data = []"
  proof (cases "admins ?data = []")
    case True
    with first show ?thesis by simp
  next
    case False
    show ?thesis
    proof (cases "?sender \<in> set (admins ?data)")
      case True
      with again False show ?thesis by (simp add: crown_def check_mark_def)
    next
      case False
      with denied \<open>admins ?data \<noteq> []\<close> show ?thesis by (simp add: crown_def cross_mark_def)
    qed
  qed
  show ?thesis
    unfolding Let_def using first once again denied iff by blast
qed

theorem addadmin_bootstrap_witness:
  "whatsapp_bot (\<lambda>i. 0) (message ''/AddAdmin'' ''+5'' ''Eve'') None =
     (Some (init_data\<lparr>admins := [''+5'']\<rparr>), Inr (Some (crown @ '' You are now an admin!''))) \<and>
   admins (load_data (serve [(\<lambda>i. 0, message ''/addadmin'' ''+6'' ''Fay''),
                             (\<lambda>i. 0, message ''/addadmin'' ''+5'' ''Eve'')]
             (fst (whatsapp_bot (\<lambda>i. 0) (message ''/AddAdmin'' ''+5'' ''Eve'') None)))) = [''+5''] \<and>
   whatsapp_bot (\<lambda>i. 0) (message ''/addadmin'' ''+1'' ''Al'') (Some club) =
     (Some club,
      Inr (Some (check_mark @ '' You're already an admin!'' @ nl @ nl @
                 ''Admin commands:'' @ nl @
                 ''/start - Start selection'' @ nl @
                 ''/end - Create random teams'' @ nl @
                 ''/status - View current status'' @ nl @
                 ''/reset - Reset session''))) \<and>
   whatsapp_bot (\<lambda>i. 0) (message ''/addadmin please'' ''+6'' ''Fay'') (Some club) =
     (Some club, Inr (Some (cross_mark @ '' Only existing admins can add new admins'')))"
proof -
  have h1: "startswith (lower (strip (dict_get (message ''/AddAdmin'' ''+5'' ''Eve'') ''Body'' []))) ''/addadmin''"
    by (simp add: eval_defs)
  have h2: "startswith (lower (strip (dict_get (message ''/addadmin'' ''+1'' ''Al'') ''Body'' []))) ''/addadmin''"
    by (simp add: eval_defs)
  have h3: "startswith (lower (strip (dict_get (message ''/addadmin please'' ''+6'' ''Fay'') ''Body'' []))) ''/addadmin''"
    by (simp add: eval_defs)
  note t1 = addadmin_bootstrap [OF h1, of None "\<lambda>i. 0", unfolded Let_def]
  note t2 = addadmin_bootstrap [OF h2, of "Some club" "\<lambda>i. 0", unfolded Let_def]
  note t3 = addadmin_bootstrap [OF h3, of "Some club" "\<lambda>i. 0", unfolded Let_def]
  have e1: "admins (load_data None) = []" by (simp add: eval_defs init_data_def)
  have e2: "dict_get (message ''/addadmin'' ''+1'' ''Al'') ''From'' [] \<in> set (admins (load_data (Some club)))"
    by (simp add: eval_defs)
  have e3: "admins (load_data (Some club)) \<noteq> [] \<and>
            dict_get (message ''/addadmin please'' ''+6'' ''Fay'') ''From'' [] \<notin> set (admins (load_data (Some club)))"
    by (simp add: eval_defs)
  from t1 e1 have a: "whatsapp_bot (\<lambda>i. 0) (message ''/AddAdmin'' ''+5'' ''Eve'') None =
     (Some (init_data\<lparr>admins := [''+5'']\<rparr>), Inr (Some (crown @ '' You are now an admin!'')))"
    by (simp add: eval_defs)
  from t1 e1 have b: "admins (load_data (serve [(\<lambda>i. 0, message ''/addadmin'' ''+6'' ''Fay''),
                             (\<lambda>i. 0, message ''/addadmin'' ''+5'' ''Eve'')]
             (fst (whatsapp_bot (\<lambda>i. 0) (message ''/AddAdmin'' ''+5'' ''Eve'') None)))) =
             [dict_get (message ''/AddAdmin'' ''+5'' ''Eve'') ''From'' []]"
    by blast
  from t2 e2 have c: "whatsapp_bot (\<lambda>i. 0) (message ''/addadmin'' ''+1'' ''Al'') (Some club) =
     (Some club,
      Inr (Some (check_mark @ '' You're already an admin!'' @ nl @ nl @
                 ''Admin commands:'' @ nl @
                 ''/start - Start selection'' @ nl @
                 ''/end - Create random teams'' @ nl @
                 ''/status - View current status'' @ nl @
                 ''/reset - Reset session'')))"
    by blast
  from t3 e3 have d: "whatsapp_bot (\<lambda>i. 0) (message ''/addadmin please'' ''+6'' ''Fay'') (Some club) =
     (Some club, Inr (Some (cross_mark @ '' Only existing admins can add new admins'')))"
    by blast
  from b have b': "admins (load_data (serve [(\<lambda>i. 0, message ''/addadmin'' ''+6'' ''Fay''),
                             (\<lambda>i. 0, message ''/addadmin'' ''+5'' ''Eve'')]
             (fst (whatsapp_bot (\<lambda>i. 0) (message ''/AddAdmin'' ''+5'' ''Eve'') None)))) = [''+5'']"
    by (simp add: eval_defs)
  from a b' c d show ?thesis by blast
qed

text \<open>
  Claim C4. While the session is not active, "in" and "out" from any sender are
  answered with the denial of their branch, and the file, hence the list of
  participants, is left as it is.
\<close>

theorem inactive_join_leave_denied:
  assumes "\<not> active (session (load_data file))"
  shows "(lower (strip (dict_get values ''Body'' [])) = ''in'' \<longrightarrow>
            whatsapp_bot rnd values file =
              (file, Inr (Some (cross_mark @ '' No active selection. Wait for admin to /start'')))) \<and>
         (lower (strip (dict_get values ''Body'' [])) = ''out'' \<longrightarrow>
            whatsapp_bot rnd values file =
              (file, Inr (Some (cross_mark @ '' No active selection''))))"
  using assms by (simp add: whatsapp_bot_def Let_def)

theorem inactive_join_leave_denied_witness:
  "whatsapp_bot (\<lambda>i. 0) (message ''In'' ''+4'' ''Dan'')
     (Some (club\<lparr>session := \<lparr>active = False, participants = [''+2'']\<rparr>\<rparr>)) =
     (Some (club\<lparr>session := \<lparr>active = False, participants = [''+2'']\<rparr>\<rparr>),
      Inr (Some (cross_mark @ '' No active selection. Wait for admin to /start''))) \<and>
   whatsapp_bot (\<lambda>i. 0) (message '' out'' ''+2'' ''Bea'')
     (Some (club\<lparr>session := \<lparr>active = False, participants = [''+2'']\<rparr>\<rparr>)) =
     (Some (club\<lparr>session := \<lparr>active = False, participants = [''+2'']\<rparr>\<rparr>),
      Inr (Some (cross_mark @ '' No active selection'')))"
proof -
  let ?f = "Some (club\<lparr>session := \<lparr>active = False, participants = [''+2'']\<rparr>\<rparr>)"
  have h: "\<not> active (session (load_data ?f))" by (simp add: eval_defs)
  have m1: "lower (strip (dict_get (message ''In'' ''+4'' ''Dan'') ''Body'' [])) = ''in''"
    by (simp add: eval_defs)
  have m2: "lower (strip (dict_get (message '' out'' ''+2'' ''Bea'') ''Body'' [])) = ''out''"
    by (simp add: eval_defs)
  from inactive_join_leave_denied [OF h, of "message ''In'' ''+4'' ''Dan''" "\<lambda>i. 0"] m1
       inactive_join_leave_denied [OF h, of "message '' out'' ''+2'' ''Bea''" "\<lambda>i. 0"] m2
  show ?thesis by blast
qed

text \<open>
  Claim C5. \<open>/end\<close> from an admin, with the session active and at least one
  participant, succeeds with a reply and saves the store with \<open>active\<close> set to false:
  the list of participants is the one from before the command, and the admins and the
  players are unchanged.
\<close>

theorem end_keeps_roster:
  assumes "lower (strip (dict_get values ''Body'' [])) = ''/end''"
    and "dict_get values ''From'' [] \<in> set (admins (load_data file))"
    and "active (session (load_data file))"
    and "participants (session (load_data file)) \<noteq> []"
  shows "let data = load_data file;
             result = whatsapp_bot rnd values file;
             data' = load_data (fst result)
         in fst result = Some (data\<lparr>session := (session data)\<lparr>active := False\<rparr>\<rparr>) \<and>
            \<not> active (session data') \<and>
            participants (session data') = participants (session data) \<and>
            admins data' = admins data \<and>
            players data' = players data \<and>
            (\<exists>text. snd result = Inr (Some text))"
  using assms by (simp add: whatsapp_bot_def Let_def is_admin_def save_data_def load_data_def)

theorem end_keeps_roster_witness:
  "fst (whatsapp_bot (\<lambda>i. 0) (message ''/END'' ''+1'' ''Al'') (Some club)) =
     Some (club\<lparr>session := \<lparr>active = False, participants = [''+2'', ''+3'']\<rparr>\<rparr>) \<and>
   participants (session (load_data (fst (whatsapp_bot (\<lambda>i. 0) (message ''/END'' ''+1'' ''Al'') (Some club)))))
     = [''+2'', ''+3'']"
proof -
  let ?v = "message ''/END'' ''+1'' ''Al''"
  have h1: "lower (strip (dict_get ?v ''Body'' [])) = ''/end''" by (simp add: eval_defs)
  have h2: "dict_get ?v ''From'' [] \<in> set (admins (load_data (Some club)))" by (simp add: eval_defs)
  have h3: "active (session (load_data (Some club)))" by (simp add: eval_defs)
  have h4: "participants (session (load_data (Some club))) \<noteq> []" by (simp add: eval_defs)
  from end_keeps_roster [OF h1 h2 h3 h4, of "\<lambda>i. 0", unfolded Let_def]
  show ?thesis by (simp add: eval_defs)
qed

text \<open>
  Claim C6. "in" never changes the record of a phone that is in the players map
  already, whatever profile name comes with the request (in particular when the session
  is active): the only record that can differ afterwards is the sender's, when the
  sender had none, and it then holds the profile name of the request.
\<close>

theorem in_keeps_known_names:
  assumes "lower (strip (dict_get values ''Body'' [])) = ''in''"
  shows "let sender = dict_get values ''From'' [];
             profile_name = dict_get values ''ProfileName'' ''Player'';
             data = load_data file;
             data' = load_data (fst (whatsapp_bot rnd values file))
         in (\<forall>phone info. players data phone = Some info \<longrightarrow> players data' phone = Some info) \<and>
            (\<forall>phone. players data' phone \<noteq> players data phone \<longrightarrow>
               phone = sender \<and> players data phone = None \<and>
               players data' phone = Some \<lparr>name = profile_name\<rparr>)"
  using bot_in [OF assms, of rnd "file"]
  by (auto simp add: Let_def load_data_def dict_get_def split: option.splits)

theorem in_keeps_known_names_witness:
  "players (load_data (fst (whatsapp_bot (\<lambda>i. 0) (message ''in'' ''+2'' ''Beatrix'')
      (Some (club\<lparr>session := \<lparr>active = True, participants = []\<rparr>\<rparr>))))) ''+2'' =
     Some \<lparr>name = ''Bea''\<rparr> \<and>
   players (load_data (fst (whatsapp_bot (\<lambda>i. 0) (message ''in'' ''+4'' ''Dan'') (Some club)))) ''+4'' =
     Some \<lparr>name = ''Dan''\<rparr>"
proof -
  let ?v = "message ''in'' ''+2'' ''Beatrix''"
  let ?f = "Some (club\<lparr>session := \<lparr>active = True, participants = []\<rparr>\<rparr>)"
  have h: "lower (strip (dict_get ?v ''Body'' [])) = ''in''" by (simp add: eval_defs)
  have k: "players (load_data ?f) ''+2'' = Some \<lparr>name = ''Bea''\<rparr>" by (simp add: eval_defs)
  from in_keeps_known_names [OF h, of ?f "\<lambda>i. 0", unfolded Let_def] k
  have known: "players (load_data (fst (whatsapp_bot (\<lambda>i. 0) ?v ?f))) ''+2'' = Some \<lparr>name = ''Bea''\<rparr>"
    by blast
  let ?w = "message ''in'' ''+4'' ''Dan''"
  have h': "lower (strip (dict_get ?w ''Body'' [])) = ''in''" by (simp add: eval_defs)
  have differ: "players (load_data (fst (whatsapp_bot (\<lambda>i. 0) ?w (Some club)))) ''+4'' \<noteq>
                players (load_data (Some club)) ''+4''"
    using bot_in [OF h', of "\<lambda>i. 0" "Some club"] by (simp add: Let_def eval_defs)
  from in_keeps_known_names [OF h', of "Some club" "\<lambda>i. 0", unfolded Let_def] differ
  have "players (load_data (fst (whatsapp_bot (\<lambda>i. 0) ?w (Some club)))) ''+4'' =
        Some \<lparr>name = dict_get ?w ''ProfileName'' ''Player''\<rparr>"
    by blast
  then have new: "players (load_data (fst (whatsapp_bot (\<lambda>i. 0) ?w (Some club)))) ''+4'' =
        Some \<lparr>name = ''Dan''\<rparr>"
    by (simp add: eval_defs)
  from known new show ?thesis by blast
qed

text \<open>
  Claim C7. For a sender who is not in the list of admins, \<open>/start\<close>, \<open>/end\<close>,
  \<open>/status\<close> and \<open>/reset\<close> are each answered with the denial of their branch, and
  the file (admins, players and session) is left as it is.
\<close>

theorem non_admin_denied:
  assumes "dict_get values ''From'' [] \<notin> set (admins (load_data file))"
  shows "(lower (strip (dict_get values ''Body'' [])) = ''/start'' \<longrightarrow>
            whatsapp_bot rnd values file =
              (file, Inr (Some (cross_mark @ '' Only admins can start selection'')))) \<and>
         (lower (strip (dict_get values ''Body'' [])) = ''/end'' \<longrightarrow>
            whatsapp_bot rnd values file =
              (file, Inr (Some (cross_mark @ '' Only admins can end selection'')))) \<and>
         (lower (strip (dict_get values ''Body'' [])) = ''/status'' \<longrightarrow>
            whatsapp_bot rnd values file =
              (file, Inr (Some (cross_mark @ '' Admin only command'')))) \<and>
         (lower (strip (dict_get values ''Body'' [])) = ''/reset'' \<longrightarrow>
            whatsapp_bot rnd values file =
              (file, Inr (Some (cross_mark @ '' Only admins can reset''))))"
  using assms by (simp add: whatsapp_bot_def Let_def is_admin_def)

theorem non_admin_denied_witness:
  "whatsapp_bot (\<lambda>i. 0) (message '' /START '' ''+2'' ''Bea'') (Some club) =
     (Some club, Inr (Some (cross_mark @ '' Only admins can start selection''))) \<and>
   whatsapp_bot (\<lambda>i. 0) (message ''/end'' ''+2'' ''Bea'') (Some club) =
     (Some club, Inr (Some (cross_mark @ '' Only admins can end selection''))) \<and>
   whatsapp_bot (\<lambda>i. 0) (message ''/Status'' ''+2'' ''Bea'') (Some club) =
     (Some club, Inr (Some (cross_mark @ '' Admin only command''))) \<and>
   whatsapp_bot (\<lambda>i. 0) (message ''/reset'' ''+2'' ''Bea'') (Some club) =
     (Some club, Inr (Some (cross_mark @ '' Only admins can reset'')))"
proof -
  have a1: "dict_get (message '' /START '' ''+2'' ''Bea'') ''From'' [] \<notin> set (admins (load_data (Some club)))"
    by (simp add: eval_defs)
  have a2: "dict_get (message ''/end'' ''+2'' ''Bea'') ''From'' [] \<notin> set (admins (load_data (Some club)))"
    by (simp add: eval_defs)
  have a3: "dict_get (message ''/Status'' ''+2'' ''Bea'') ''From'' [] \<notin> set (admins (load_data (Some club)))"
    by (simp add: eval_defs)
  have a4: "dict_get (message ''/reset'' ''+2'' ''Bea'') ''From'' [] \<notin> set (admins (load_data (Some club)))"
    by (simp add: eval_defs)
  have b1: "lower (strip (dict_get (message '' /START '' ''+2'' ''Bea'') ''Body'' [])) = ''/start''"
    by (simp add: eval_defs)
  have b2: "lower (strip (dict_get (message ''/end'' ''+2'' ''Bea'') ''Body'' [])) = ''/end''"
    by (simp add: eval_defs)
  have b3: "lower (strip (dict_get (message ''/Status'' ''+2'' ''Bea'') ''Body'' [])) = ''/status''"
    by (simp add: eval_defs)
  have b4: "lower (strip (dict_get (message ''/reset'' ''+2'' ''Bea'') ''Body'' [])) = ''/reset''"
    by (simp add: eval_defs)
  from non_admin_denied [OF a1, of "\<lambda>i. 0"] b1
       non_admin_denied [OF a2, of "\<lambda>i. 0"] b2
       non_admin_denied [OF a3, of "\<lambda>i. 0"] b3
       non_admin_denied [OF a4, of "\<lambda>i. 0"] b4
  show ?thesis by blast
qed

text \<open>
  Claim C8. When the normalised text matches no command (it does not start with
  \<open>/addadmin\<close> and is none of \<open>/start\<close>, \<open>/end\<close>, \<open>/status\<close>, \<open>/reset\<close>, \<open>in\<close>,
  \<open>out\<close>, \<open>/help\<close>), the reply is the "Unknown command" notice if the text starts
  with a slash, and no reply body is set otherwise; the file is left as it is.
\<close>

theorem unknown_command:
  assumes "\<not> startswith (lower (strip (dict_get values ''Body'' []))) ''/addadmin''"
    and "lower (strip (dict_get values ''Body'' [])) \<notin>
           set [''/start'', ''/end'', ''/status'', ''/reset'', ''in'', ''out'', ''/help'']"
  shows "whatsapp_bot rnd values file =
           (file,
            if startswith (lower (strip (dict_get values ''Body'' []))) ''/''
            then Inr (Some (question_mark @ '' Unknown command. Send /help for commands''))
            else Inr None)"
  using assms by (simp add: whatsapp_bot_def Let_def)

theorem unknown_command_witness:
  "whatsapp_bot (\<lambda>i. 0) (message ''/teams'' ''+2'' ''Bea'') (Some club) =
     (Some club, Inr (Some (question_mark @ '' Unknown command. Send /help for commands''))) \<and>
   whatsapp_bot (\<lambda>i. 0) (message ''hello all'' ''+2'' ''Bea'') (Some club) = (Some club, Inr None)"
proof -
  let ?v1 = "message ''/teams'' ''+2'' ''Bea''"
  let ?v2 = "message ''hello all'' ''+2'' ''Bea''"
  have a1: "\<not> startswith (lower (strip (dict_get ?v1 ''Body'' []))) ''/addadmin''"
    by (simp add: eval_defs)
  have b1: "lower (strip (dict_get ?v1 ''Body'' [])) \<notin>
           set [''/start'', ''/end'', ''/status'', ''/reset'', ''in'', ''out'', ''/help'']"
    by (simp add: eval_defs)
  have a2: "\<not> startswith (lower (strip (dict_get ?v2 ''Body'' []))) ''/addadmin''"
    by (simp add: eval_defs)
  have b2: "lower (strip (dict_get ?v2 ''Body'' [])) \<notin>
           set [''/start'', ''/end'', ''/status'', ''/reset'', ''in'', ''out'', ''/help'']"
    by (simp add: eval_defs)
  have c1: "startswith (lower (strip (dict_get ?v1 ''Body'' []))) ''/''" by (simp add: eval_defs)
  have c2: "\<not> startswith (lower (strip (dict_get ?v2 ''Body'' []))) ''/''" by (simp add: eval_defs)
  from unknown_command [OF a1 b1, of "\<lambda>i. 0" "Some club"] c1
       unknown_command [OF a2 b2, of "\<lambda>i. 0" "Some club"] c2
  show ?thesis by simp
qed

text \<open>
  Claim C9. \<open>/end\<close> from an admin, with the session active and no participant, is
  answered with "No players have joined yet!" and the file is left as it is: the
  session is still active afterwards.
\<close>

theorem end_without_players:
  assumes "lower (strip (dict_get values ''Body'' [])) = ''/end''"
    and "dict_get values ''From'' [] \<in> set (admins (load_data file))"
    and "active (session (load_data file))"
    and "participants (session (load_data file)) = []"
  shows "whatsapp_bot rnd values file =
           (file, Inr (Some (cross_mark @ '' No players have joined yet!''))) \<and>
         active (session (load_data (fst (whatsapp_bot rnd values file))))"
  using assms by (simp add: whatsapp_bot_def Let_def is_admin_def)

theorem end_without_players_witness:
  "whatsapp_bot (\<lambda>i. 0) (message ''/end'' ''+1'' ''Al'')
     (Some (club\<lparr>session := \<lparr>active = True, participants = []\<rparr>\<rparr>)) =
     (Some (club\<lparr>session := \<lparr>active = True, participants = []\<rparr>\<rparr>),
      Inr (Some (cross_mark @ '' No players have joined yet!'')))"
proof -
  let ?v = "message ''/end'' ''+1'' ''Al''"
  let ?f = "Some (club\<lparr>session := \<lparr>active = True, participants = []\<rparr>\<rparr>)"
  have h1: "lower (strip (dict_get ?v ''Body'' [])) = ''/end''" by (simp add: eval_defs)
  have h2: "dict_get ?v ''From'' [] \<in> set (admins (load_data ?f))" by (simp add: eval_defs)
  have h3: "active (session (load_data ?f))" by (simp add: eval_defs)
  have h4: "participants (session (load_data ?f)) = []" by (simp add: eval_defs)
  from end_without_players [OF h1 h2 h3 h4, of "\<lambda>i. 0"] show ?thesis by blast
qed

text \<open>
  Claim C10. When an admin sends \<open>/end\<close> (session active) or \<open>/status\<close> and some
  participant has no record in the players map, the handler does not fail on the lookup:
  the reply holds a player line with the name "Unknown" for that participant. No
  request on any file raises an error at all.
\<close>

theorem unknown_player_rendered:
  assumes "dict_get values ''From'' [] \<in> set (admins (load_data file))"
    and "phone \<in> set (participants (session (load_data file)))"
    and "players (load_data file) phone = None"
  shows "(lower (strip (dict_get values ''Body'' [])) = ''/end'' \<and>
          active (session (load_data file)) \<longrightarrow>
            (\<exists>pre post. snd (whatsapp_bot rnd values file) =
               Inr (Some (pre @ ''  '' @ bullet @ '' Unknown'' @ nl @ post)))) \<and>
         (lower (strip (dict_get values ''Body'' [])) = ''/status'' \<longrightarrow>
            (\<exists>pre post. snd (whatsapp_bot rnd values file) =
               Inr (Some (pre @ ''  '' @ bullet @ '' Unknown'' @ nl @ post)))) \<and>
         (\<forall>rnd' values' file'. \<exists>file'' reply.
            whatsapp_bot rnd' values' file' = (file'', Inr reply))"
proof -
  let ?data = "load_data file"
  let ?get = "\<lambda>phone. dict_get (players ?data) phone \<lparr>name = ''Unknown''\<rparr>"
  let ?ps = "participants (session ?data)"
  have line: "player_line (?get phone) = ''  '' @ bullet @ '' Unknown'' @ nl"
    using assms(3) by (simp add: player_line_def dict_get_def)
  have nonempty: "?ps \<noteq> []" using assms(2) by auto
  have end_case: "\<exists>pre post. snd (whatsapp_bot rnd values file) =
               Inr (Some (pre @ ''  '' @ bullet @ '' Unknown'' @ nl @ post))"
    if msg: "lower (strip (dict_get values ''Body'' [])) = ''/end''"
      and act: "active (session ?data)"
  proof -
    let ?teams = "create_teams rnd (map ?get ?ps)"
    have "?get phone \<in> set (map ?get ?ps)"
      using assms(2) by simp
    then have "?get phone \<in> set (concat ?teams)"
      by (simp only: set_concat_create_teams)
    from format_teams_line [OF this] obtain a b
      where f: "format_teams ?teams = a @ player_line (?get phone) @ b" by blast
    have "snd (whatsapp_bot rnd values file) =
            Inr (Some (game_die @ '' *RANDOM TEAM SELECTION*'' @ nl @ nl @ format_teams ?teams @
                       ''Total Players: '' @ str_nat (length (map ?get ?ps)) @ nl @
                       ''Teams Created: '' @ str_nat (length ?teams)))"
      using msg act assms(1) nonempty
      by (simp add: whatsapp_bot_def Let_def is_admin_def)
    also have "\<dots> = Inr (Some ((game_die @ '' *RANDOM TEAM SELECTION*'' @ nl @ nl @ a) @
                       ''  '' @ bullet @ '' Unknown'' @ nl @
                       (b @ ''Total Players: '' @ str_nat (length (map ?get ?ps)) @ nl @
                       ''Teams Created: '' @ str_nat (length ?teams))))"
      unfolding f line by simp
    finally show ?thesis by blast
  qed
  have status_case: "\<exists>pre post. snd (whatsapp_bot rnd values file) =
               Inr (Some (pre @ ''  '' @ bullet @ '' Unknown'' @ nl @ post))"
    if msg: "lower (strip (dict_get values ''Body'' [])) = ''/status''"
  proof -
    let ?head = "bar_chart @ '' *SESSION STATUS*'' @ nl @ nl @ ''Status: '' @
                 (if active (session ?data) then green_circle @ '' ACTIVE''
                  else red_circle @ '' INACTIVE'') @ nl @
                 ''Players In: '' @ str_nat (length ?ps) @ nl @ nl @ ''Participants:'' @ nl"
    from line_in_concat [OF assms(2), of ?get] obtain a b
      where c: "concat (map (\<lambda>x. player_line (?get x)) ?ps) = a @ player_line (?get phone) @ b"
      by blast
    have "snd (whatsapp_bot rnd values file) =
            Inr (Some (?head @ concat (map (\<lambda>x. player_line (?get x)) ?ps)))"
      using msg assms(1) nonempty
      by (simp add: whatsapp_bot_def Let_def is_admin_def foldl_player_lines)
    also have "\<dots> = Inr (Some ((?head @ a) @ ''  '' @ bullet @ '' Unknown'' @ nl @ b))"
      unfolding c line by simp
    finally show ?thesis by blast
  qed
  from end_case status_case bot_total show ?thesis by blast
qed

theorem unknown_player_rendered_witness:
  "snd (whatsapp_bot (\<lambda>i. 0) (message ''/status'' ''+1'' ''Al'') (Some club)) =
     Inr (Some (bar_chart @ '' *SESSION STATUS*'' @ nl @ nl @
                ''Status: '' @ green_circle @ '' ACTIVE'' @ nl @
                ''Players In: 2'' @ nl @ nl @
                ''Participants:'' @ nl @
                ''  '' @ bullet @ '' Bea'' @ nl @
                ''  '' @ bullet @ '' Unknown'' @ nl)) \<and>
   snd (whatsapp_bot (\<lambda>i. 0) (message ''/end'' ''+1'' ''Al'') (Some club)) =
     Inr (Some (game_die @ '' *RANDOM TEAM SELECTION*'' @ nl @ nl @
                soccer_ball @ '' *THIS WEEK'S TEAMS* '' @ soccer_ball @ nl @
                ''=============================='' @ nl @ nl @
                red_circle @ '' *Red Team* (2 players)'' @ nl @
                ''  '' @ bullet @ '' Unknown'' @ nl @
                ''  '' @ bullet @ '' Bea'' @ nl @ nl @
                ''Total Players: 2'' @ nl @
                ''Teams Created: 1'')) \<and>
   (\<exists>pre post. snd (whatsapp_bot (\<lambda>i. 0) (message ''/status'' ''+1'' ''Al'') (Some club)) =
      Inr (Some (pre @ ''  '' @ bullet @ '' Unknown'' @ nl @ post))) \<and>
   (\<exists>pre post. snd (whatsapp_bot (\<lambda>i. 0) (message ''/end'' ''+1'' ''Al'') (Some club)) =
      Inr (Some (pre @ ''  '' @ bullet @ '' Unknown'' @ nl @ post)))"
proof -
  let ?s = "message ''/status'' ''+1'' ''Al''"
  let ?e = "message ''/end'' ''+1'' ''Al''"
  have s1: "dict_get ?s ''From'' [] \<in> set (admins (load_data (Some club)))" by (simp add: eval_defs)
  have e1: "dict_get ?e ''From'' [] \<in> set (admins (load_data (Some club)))" by (simp add: eval_defs)
  have h2: "''+3'' \<in> set (participants (session (load_data (Some club))))" by (simp add: eval_defs)
  have h3: "players (load_data (Some club)) ''+3'' = None" by (simp add: eval_defs)
  have ms: "lower (strip (dict_get ?s ''Body'' [])) = ''/status''" by (simp add: eval_defs)
  have me: "lower (strip (dict_get ?e ''Body'' [])) = ''/end'' \<and> active (session (load_data (Some club)))"
    by (simp add: eval_defs)
  from unknown_player_rendered [OF s1 h2 h3, of "\<lambda>i. 0"] ms
  have a: "\<exists>pre post. snd (whatsapp_bot (\<lambda>i. 0) ?s (Some club)) =
      Inr (Some (pre @ ''  '' @ bullet @ '' Unknown'' @ nl @ post))" by blast
  from unknown_player_rendered [OF e1 h2 h3, of "\<lambda>i. 0"] me
  have b: "\<exists>pre post. snd (whatsapp_bot (\<lambda>i. 0) ?e (Some club)) =
      Inr (Some (pre @ ''  '' @ bullet @ '' Unknown'' @ nl @ post))" by blast
  have c: "snd (whatsapp_bot (\<lambda>i. 0) ?s (Some club)) =
     Inr (Some (bar_chart @ '' *SESSION STATUS*'' @ nl @ nl @
                ''Status: '' @ green_circle @ '' ACTIVE'' @ nl @
                ''Players In: 2'' @ nl @ nl @
                ''Participants:'' @ nl @
                ''  '' @ bullet @ '' Bea'' @ nl @
                ''  '' @ bullet @ '' Unknown'' @ nl))"
    by code_simp
  have d: "snd (whatsapp_bot (\<lambda>i. 0) ?e (Some club)) =
     Inr (Some (game_die @ '' *RANDOM TEAM SELECTION*'' @ nl @ nl @
                soccer_ball @ '' *THIS WEEK'S TEAMS* '' @ soccer_ball @ nl @
                ''=============================='' @ nl @ nl @
                red_circle @ '' *Red Team* (2 players)'' @ nl @
                ''  '' @ bullet @ '' Unknown'' @ nl @
                ''  '' @ bullet @ '' Bea'' @ nl @ nl @
                ''Total Players: 2'' @ nl @
                ''Teams Created: 1''))"
    by code_simp
  from a b c d show ?thesis by blast
qed

end
